theory Spec2Isabelle
  imports Main "HOL-Library.Sublist"
begin

section \<open>JavaScript values and strings\<close>

text \<open>
  The repository is one class, \<open>SeleniumDriver\<close>, a facade over the
  selenium-webdriver client. Two snapshots of \<open>src/SeleniumDriver.js\<close> are kept: an
  earlier one without documentation comments (lines 1-232) and the documented one (lines
  234-573), which the published documentation page repeats with an added \<open>scrollTo\<close>.
  The definitions below embed the documented snapshot. The earlier snapshot has the same
  text except in five places: its defaults table has one more key
  (\<open>notificationsParent\<close>), the message of its \<open>click\<close> has no closing quote, its
  \<open>select\<close> hands the caught exception to \<open>error\<close>, its \<open>expectPage\<close> defaults
  \<open>exact\<close> to \<open>true\<close>, and its \<open>error\<close> prints the note instead of appending it.
  These five are embedded as well, under the suffix \<open>_r1\<close>, together with the
  constructor and \<open>expectElement\<close>, which reach them.

  A JavaScript string is modelled as a \<open>string\<close>: a list of characters whose code
  units are below 256. Numbers are modelled as integers (the only numbers the class handles
  are the timeout and the millisecond clock).
\<close>

datatype jsval = Undefined | Null | Bool bool | Num int | Str string

fun digits :: "nat \<Rightarrow> string" where
  "digits n =
     (if n < 10 then [''0123456789'' ! n] else digits (n div 10) @ [''0123456789'' ! (n mod 10)])"

declare digits.simps [simp del]

text \<open>The conversion a template literal applies to an interpolated value.\<close>

fun toString :: "jsval \<Rightarrow> string" where
  "toString Undefined = ''undefined''"
| "toString Null = ''null''"
| "toString (Bool b) = (if b then ''true'' else ''false'')"
| "toString (Num i) = (if i < 0 then ''-'' @ digits (nat (- i)) else digits (nat i))"
| "toString (Str s) = s"

text \<open>
  \<open>String.prototype.trim\<close> removes white space and line terminators from both ends; the
  code units below 256 among them are tab, line feed, vertical tab, form feed, carriage
  return, space and no-break space.
\<close>

definition isWhiteSpace :: "char \<Rightarrow> bool" where
  "isWhiteSpace c = ((of_char c :: nat) \<in> {9, 10, 11, 12, 13, 32, 160})"

definition trim :: "string \<Rightarrow> string" where
  "trim s = rev (dropWhile isWhiteSpace (rev (dropWhile isWhiteSpace s)))"

text \<open>The character class \<open>[a-zA-Z0-9]\<close>.\<close>

definition isAlnum :: "char \<Rightarrow> bool" where
  "isAlnum c = (let n = (of_char c :: nat) in
     (48 \<le> n \<and> n \<le> 57) \<or> (65 \<le> n \<and> n \<le> 90) \<or> (97 \<le> n \<and> n \<le> 122))"

text \<open>\<open>s.replace(/[^a-zA-Z0-9]/g, '-')\<close>: every match is one character.\<close>

definition replace_non_alnum :: "string \<Rightarrow> string" where
  "replace_non_alnum s = map (\<lambda>c. if isAlnum c then c else CHR ''-'') s"

text \<open>
  \<open>String.prototype.toLowerCase\<close> on code units below 256: the letters A-Z and the
  Latin-1 capitals (192-222 except the multiplication sign 215) move up by 32.
\<close>

definition lowerChar :: "char \<Rightarrow> char" where
  "lowerChar c = (let n = (of_char c :: nat) in
     if (65 \<le> n \<and> n \<le> 90) \<or> (192 \<le> n \<and> n \<le> 222 \<and> n \<noteq> 215) then char_of (n + 32) else c)"

definition toLowerCase :: "string \<Rightarrow> string" where
  "toLowerCase s = map lowerChar s"

text \<open>
  \<open>s.replace(/[-]*$/, '')\<close>: the pattern has no \<open>g\<close> flag, so the leftmost match is
  replaced. The search tries each start position from the left; \<open>[-]*$\<close> matches at a
  position exactly when only hyphens follow it, and the match then runs to the end.
\<close>

fun replace_trailing_hyphens :: "string \<Rightarrow> string" where
  "replace_trailing_hyphens [] = []"
| "replace_trailing_hyphens (c # cs) =
     (if list_all (\<lambda>x. x = CHR ''-'') (c # cs) then [] else c # replace_trailing_hyphens cs)"

text \<open>
  The slug of \<open>error\<close> (line 503):
  \<open>msg.trim().replace(/[^a-zA-Z0-9]/g, '-').toLowerCase().replace(/[-]*$/, '')\<close>.
\<close>

definition slug :: "string \<Rightarrow> string" where
  "slug msg = replace_trailing_hyphens (toLowerCase (replace_non_alnum (trim msg)))"

text \<open>\<open>_pagePath\<close> (lines 524-532); \<open>page.substr(0, 1)\<close> is the first character, if any.\<close>

definition pagePath :: "string \<Rightarrow> string" where
  "pagePath page = (let path = page in if take 1 page \<noteq> ''/'' then ''/'' @ path else path)"


text \<open>
  \<open>s.split(' ')\<close> with a one-character separator and \<open>xs.join('.')\<close>. The empty
  string splits into one empty piece; an empty array joins to the empty string.
\<close>

fun split :: "char \<Rightarrow> string \<Rightarrow> string list" where
  "split sep [] = [[]]"
| "split sep (c # cs) =
     (if c = sep then [] # split sep cs
      else (case split sep cs of [] \<Rightarrow> [[c]] | w # ws \<Rightarrow> (c # w) # ws))"

fun join :: "string \<Rightarrow> string list \<Rightarrow> string" where
  "join sep [] = []"
| "join sep [w] = w"
| "join sep (w # v # ws) = w @ sep @ join sep (v # ws)"

section \<open>Match targets and their descriptions\<close>

text \<open>
  A title, page or content argument is a string or a \<open>RegExp\<close> (source and flags); the
  class tells them apart with \<open>search.constructor === RegExp\<close>. Interpolating a
  \<open>RegExp\<close> prints it between slashes followed by its flags.
\<close>

datatype regexp = RegExp string string

datatype search = Literal string | Pattern regexp

fun showSearch :: "search \<Rightarrow> string" where
  "showSearch (Literal s) = s"
| "showSearch (Pattern (RegExp source flags)) = ''/'' @ source @ ''/'' @ flags"

text \<open>\<open>_matchText\<close> (lines 540-550) and \<open>_matchTextNot\<close> (lines 558-570).\<close>

definition matchText :: "search \<Rightarrow> bool \<Rightarrow> string" where
  "matchText search exact =
     (let text = ''contains'';
          text = (case search of Pattern r \<Rightarrow> ''matches''
                  | Literal s \<Rightarrow> if exact then ''is'' else text)
      in text @ '': '' @ [CHR 0x27] @ showSearch search @ [CHR 0x27])"

definition matchTextNot :: "search \<Rightarrow> bool \<Rightarrow> string" where
  "matchTextNot search exact =
     (let text = ''did not '';
          text = (case search of Pattern r \<Rightarrow> text @ ''match''
                  | Literal s \<Rightarrow> if exact then ''was not'' else text @ ''contain'')
      in text @ '': '' @ [CHR 0x27] @ showSearch search @ [CHR 0x27])"

section \<open>The collaborators: the browser session and the Node runtime\<close>

text \<open>
  The selenium-webdriver client and the Node modules \<open>fs\<close> and \<open>child_process\<close> are
  outside the repository. They are parameters of the model: records of operations on an
  arbitrary world state \<open>'w\<close>, each returning the value the call yields or the exception
  it throws, together with the world after the call.
\<close>

datatype exn = Error string | TypeError string | WebDriverError string

type_synonym element = nat

text \<open>The conditions of the \<open>until\<close> module that the class passes to \<open>driver.wait\<close>.\<close>

datatype until =
    ElementLocated string
  | ElementIsVisible element
  | ElementTextMatches element regexp
  | ElementTextIs element string
  | ElementTextContains element string
  | ElementIsSelected element
  | StalenessOf element
  | TitleMatches regexp
  | TitleIs string
  | TitleContains string
  | UrlMatches regexp
  | UrlIs string
  | UrlContains string

record entry =
  timestamp :: int
  level_name :: string
  message :: string

record 'w driver =
  driver_wait :: "until \<Rightarrow> jsval \<Rightarrow> 'w \<Rightarrow> (exn + unit) \<times> 'w"
  driver_findElement :: "string \<Rightarrow> 'w \<Rightarrow> (exn + element) \<times> 'w"
  driver_get :: "string \<Rightarrow> 'w \<Rightarrow> (exn + unit) \<times> 'w"
  driver_quit :: "'w \<Rightarrow> (exn + unit) \<times> 'w"
  driver_deleteAllCookies :: "'w \<Rightarrow> (exn + unit) \<times> 'w"
  driver_logs_get :: "'w \<Rightarrow> (exn + entry list) \<times> 'w"
  driver_takeScreenshot :: "'w \<Rightarrow> (exn + string) \<times> 'w"
  element_click :: "element \<Rightarrow> 'w \<Rightarrow> (exn + unit) \<times> 'w"
  element_sendKeys :: "element \<Rightarrow> string \<Rightarrow> bool \<Rightarrow> 'w \<Rightarrow> (exn + unit) \<times> 'w"
  element_findElements :: "element \<Rightarrow> string \<Rightarrow> 'w \<Rightarrow> (exn + element list) \<times> 'w"
  element_getAttribute :: "element \<Rightarrow> string \<Rightarrow> 'w \<Rightarrow> (exn + string option) \<times> 'w"
  element_getText :: "element \<Rightarrow> 'w \<Rightarrow> (exn + string) \<times> 'w"
  element_getTagName :: "element \<Rightarrow> 'w \<Rightarrow> (exn + string) \<times> 'w"

text \<open>
  \<open>fs.writeFile\<close> is asynchronous and reports a failure to its callback only, which
  prints it: the call itself never raises, so it is an effect on the world.
\<close>

record 'w node =
  Date_now :: "'w \<Rightarrow> int \<times> 'w"
  execSync :: "string \<Rightarrow> 'w \<Rightarrow> (exn + string) \<times> 'w"
  fs_appendFileSync :: "string \<Rightarrow> string \<Rightarrow> 'w \<Rightarrow> (exn + unit) \<times> 'w"
  fs_writeFile :: "string \<Rightarrow> string \<Rightarrow> 'w \<Rightarrow> 'w"
  console_log :: "string \<Rightarrow> 'w \<Rightarrow> 'w"

section \<open>Asynchronous functions\<close>

text \<open>
  An \<open>async\<close> method is a function from the state before the call to the settlement of
  the promise it returns (\<open>Inl\<close>: rejected with an exception, \<open>Inr\<close>: fulfilled with a
  value) and the state after it. The state is the collaborators' world and the list of
  rejections that no caller received.

  \<open>await\<close> continues with the value of a fulfilled promise and rethrows the exception of
  a rejected one. \<open>try_catch\<close> runs the handler on the exception. \<open>no_await\<close> is a call
  to an \<open>async\<close> method whose promise is dropped (an expression statement with no
  \<open>await\<close>): the caller goes on whatever the promise settles to, and a rejection is
  delivered to nobody. The steps of the dropped call are run at the place of the call; in
  the runtime they interleave with what the caller does next, which none of the results
  below depends on.
\<close>

record 'w run =
  world :: 'w
  unhandled :: "exn list"

type_synonym ('w, 'a) promise = "'w run \<Rightarrow> (exn + 'a) \<times> 'w run"

definition resolve :: "'a \<Rightarrow> ('w, 'a) promise" where
  "resolve x s = (Inr x, s)"

definition reject :: "exn \<Rightarrow> ('w, 'a) promise" where
  "reject e s = (Inl e, s)"

definition await :: "('w, 'a) promise \<Rightarrow> ('a \<Rightarrow> ('w, 'b) promise) \<Rightarrow> ('w, 'b) promise" where
  "await m k s = (case m s of (Inl e, s') \<Rightarrow> (Inl e, s') | (Inr x, s') \<Rightarrow> k x s')"

definition try_catch :: "('w, 'a) promise \<Rightarrow> (exn \<Rightarrow> ('w, 'a) promise) \<Rightarrow> ('w, 'a) promise" where
  "try_catch m h s = (case m s of (Inl e, s') \<Rightarrow> h e s' | (Inr x, s') \<Rightarrow> (Inr x, s'))"

definition no_await :: "('w, 'a) promise \<Rightarrow> ('w, unit) promise" where
  "no_await m s =
     (case m s of
        (Inl e, s') \<Rightarrow> (Inr (), s'\<lparr>unhandled := unhandled s' @ [e]\<rparr>)
      | (Inr x, s') \<Rightarrow> (Inr (), s'))"

definition call :: "('w \<Rightarrow> (exn + 'a) \<times> 'w) \<Rightarrow> ('w, 'a) promise" where
  "call f s = (case f (world s) of (r, w') \<Rightarrow> (r, s\<lparr>world := w'\<rparr>))"

definition call_value :: "('w \<Rightarrow> 'a \<times> 'w) \<Rightarrow> ('w, 'a) promise" where
  "call_value f s = (case f (world s) of (x, w') \<Rightarrow> (Inr x, s\<lparr>world := w'\<rparr>))"

definition call_effect :: "('w \<Rightarrow> 'w) \<Rightarrow> ('w, unit) promise" where
  "call_effect f s = (Inr (), s\<lparr>world := f (world s)\<rparr>)"

section \<open>Configuration and construction\<close>

text \<open>
  An options object is a finite map from property names to values; a key set to
  \<open>undefined\<close> is present with the value \<open>Undefined\<close>. Reading a property that is
  absent yields \<open>undefined\<close>. \<open>Object.assign({}, a, b)\<close> copies every own key of
  \<open>a\<close>, then every own key of \<open>b\<close>.
\<close>

type_synonym object = "string \<rightharpoonup> jsval"

definition getProp :: "object \<Rightarrow> string \<Rightarrow> jsval" where
  "getProp obj k = (case obj k of None \<Rightarrow> Undefined | Some v \<Rightarrow> v)"

definition assign :: "object \<Rightarrow> object \<Rightarrow> object" where
  "assign a b = (Map.empty ++ a) ++ b"

text \<open>
  The \<open>defaults\<close> table (lines 263-270). \<open>BASE_URL\<close> is the environment variable, if
  set; \<open>process.env.BASE_URL || d\<close> takes \<open>d\<close> when it is unset or empty.
\<close>

definition defaults :: "string option \<Rightarrow> object" where
  "defaults BASE_URL =
     [''timeout'' \<mapsto> Num 1000,
      ''browser'' \<mapsto> Str ''chrome'',
      ''baseUrl'' \<mapsto> Str (case BASE_URL of
                           None \<Rightarrow> ''http://localhost:3000''
                         | Some u \<Rightarrow> if u = [] then ''http://localhost:3000'' else u),
      ''logLevel'' \<mapsto> Str ''SEVERE'',
      ''homePagePath'' \<mapsto> Str ''/'',
      ''debugDirectory'' \<mapsto> Str ''tmp/selenium-debug'']"

text \<open>
  Modelled from the spec: the table \<open>logging.Level\<close> of the selenium-webdriver client,
  which is not part of the repository. The recognised level names are OFF, SEVERE,
  WARNING, INFO, DEBUG and ALL (the list the documentation comment of the options gives
  too). \<open>logging.Level[v]\<close> converts \<open>v\<close> to a property name and is truthy exactly for
  these names.
\<close>

definition logging_Level :: "jsval \<Rightarrow> bool" where
  "logging_Level v =
     (toString v \<in> set [''OFF'', ''SEVERE'', ''WARNING'', ''INFO'', ''DEBUG'', ''ALL''])"

record 'w facade =
  options :: object
  timeout :: jsval
  driver :: "'w driver"

text \<open>
  The constructor (lines 281-296). \<open>Builder\<close> stands for
  \<open>new Builder().forBrowser(browser).setLoggingPrefs(pref).build()\<close>, which opens the
  session for a browser at a log level or throws.
\<close>

definition constructor ::
  "(jsval \<Rightarrow> jsval \<Rightarrow> exn + 'w driver) \<Rightarrow> string option \<Rightarrow> object \<Rightarrow> exn + 'w facade" where
  "constructor Builder BASE_URL opts =
     (let this_options = assign (defaults BASE_URL) opts;
          this_timeout = getProp this_options ''timeout'';
          this_options =
            (if \<not> logging_Level (getProp this_options ''logLevel'')
             then this_options(''logLevel'' \<mapsto> getProp (defaults BASE_URL) ''logLevel'')
             else this_options)
      in case Builder (getProp this_options ''browser'') (getProp this_options ''logLevel'') of
           Inl e \<Rightarrow> Inl e
         | Inr d \<Rightarrow> Inr \<lparr>options = this_options, timeout = this_timeout, driver = d\<rparr>)"

section \<open>The operations of the facade\<close>

text \<open>
  \<open>error\<close> (lines 502-518), the failure path every operation ends in. The name of the
  artifact directory is computed first, the clock being read while the template literal
  is evaluated; then the console log of the browser is fetched, the directory made, the
  log written, the screenshot taken and handed to \<open>fs.writeFile\<close>, the note and the
  listing appended to the message, and the error thrown.
\<close>

definition dirName :: "'w facade \<Rightarrow> int \<Rightarrow> string \<Rightarrow> string" where
  "dirName this now msg =
     toString (getProp (options this) ''debugDirectory'') @ ''/'' @ toString (Num now) @ ''-'' @ slug msg"

definition logLine :: "entry \<Rightarrow> string" where
  "logLine e =
     ''['' @ toString (Num (timestamp e)) @ ''] ('' @ level_name e @ '') - '' @ message e"

definition error :: "'w facade \<Rightarrow> 'w node \<Rightarrow> string \<Rightarrow> ('w, 'a) promise" where
  "error this sys msg =
     await (call_value (Date_now sys)) (\<lambda>now.
     let dir = dirName this now msg in
     await (call (driver_logs_get (driver this))) (\<lambda>logs.
     await (call (execSync sys (''mkdir -p '' @ dir))) (\<lambda>_.
     await (call (fs_appendFileSync sys (dir @ ''/browser.log'')
                    (join [CHR 0x0A] (map logLine logs)))) (\<lambda>_.
     await (call (driver_takeScreenshot (driver this))) (\<lambda>shot.
     await (call_effect (fs_writeFile sys (dir @ ''/screenshot.png'') shot)) (\<lambda>_.
     let msg = msg @ [CHR 0x0A, CHR 0x0A] @ ''Debug files created in: '' @ dir @ [CHR 0x0A] in
     await (call (execSync sys (''ls -l '' @ dir))) (\<lambda>listing.
     let msg = msg @ listing in
     reject (Error msg))))))))"

text \<open>
  \<open>elementSelector\<close> (lines 480-495). \<open>getAttribute\<close> yields \<open>null\<close> for an
  attribute the element does not have; \<open>id && id.trim() !== ''\<close> is false for
  \<open>null\<close>, for the empty string and for a string of white space.
\<close>

definition nonblank :: "string option \<Rightarrow> bool" where
  "nonblank a = (case a of None \<Rightarrow> False | Some s \<Rightarrow> s \<noteq> [] \<and> trim s \<noteq> [])"

definition elementSelector :: "'w facade \<Rightarrow> element \<Rightarrow> ('w, string) promise" where
  "elementSelector this element =
     await (call (element_getAttribute (driver this) element ''id'')) (\<lambda>id.
     await (call (element_getAttribute (driver this) element ''class'')) (\<lambda>className.
     await (call (element_getTagName (driver this) element)) (\<lambda>selector.
     let selector = (if nonblank id
                     then selector @ ''#'' @ (case id of Some i \<Rightarrow> i | None \<Rightarrow> [])
                     else selector);
         selector = (if nonblank className
                     then selector @ ''.'' @
                          join ''.'' (split CHR '' '' (case className of Some c \<Rightarrow> c | None \<Rightarrow> []))
                     else selector)
     in resolve selector)))"

text \<open>
  An omitted argument with a default (\<open>exact = false\<close>) is \<open>None\<close>. The optional
  \<open>content\<close> of \<open>expectElement\<close> is tested with \<open>if (content)\<close>: absent content and
  the empty string are falsy, every other string and every \<open>RegExp\<close> is truthy.
\<close>

definition default_to :: "'a \<Rightarrow> 'a option \<Rightarrow> 'a" where
  "default_to d a = (case a of None \<Rightarrow> d | Some x \<Rightarrow> x)"

fun truthy :: "search option \<Rightarrow> bool" where
  "truthy None = False"
| "truthy (Some (Literal s)) = (s \<noteq> [])"
| "truthy (Some (Pattern r)) = True"

text \<open>\<open>expectElement\<close> (lines 412-440).\<close>

definition expectElement ::
  "'w facade \<Rightarrow> 'w node \<Rightarrow> string \<Rightarrow> search option \<Rightarrow> bool option \<Rightarrow> ('w, element) promise" where
  "expectElement this sys selector content exact_arg =
     (let exact = default_to False exact_arg in
      try_catch
        (await (call (driver_wait (driver this) (ElementLocated selector) (timeout this))) (\<lambda>_.
         await (call (driver_findElement (driver this) selector)) (\<lambda>element.
         await (call (driver_wait (driver this) (ElementIsVisible element) (timeout this))) (\<lambda>_.
         await (if truthy content
                then (case content of
                        Some (Pattern r) \<Rightarrow>
                          call (driver_wait (driver this) (ElementTextMatches element r) (timeout this))
                      | Some (Literal s) \<Rightarrow>
                          if exact
                          then call (driver_wait (driver this) (ElementTextIs element s) (timeout this))
                          else call (driver_wait (driver this) (ElementTextContains element s) (timeout this))
                      | None \<Rightarrow> resolve ())
                else resolve ()) (\<lambda>_.
         resolve element)))))
        (\<lambda>e.
         let msg = ''No element with selector: '' @ [CHR 0x27] @ selector @ [CHR 0x27];
             msg = (if truthy content
                    then msg @ '' and text that '' @
                         (case content of Some c \<Rightarrow> matchText c exact | None \<Rightarrow> [])
                    else msg)
         in error this sys msg))"

text \<open>\<open>expectTitle\<close> (lines 390-402).\<close>

definition expectTitle :: "'w facade \<Rightarrow> 'w node \<Rightarrow> search \<Rightarrow> bool option \<Rightarrow> ('w, unit) promise" where
  "expectTitle this sys title exact_arg =
     (let exact = default_to False exact_arg in
      try_catch
        (case title of
           Pattern r \<Rightarrow> call (driver_wait (driver this) (TitleMatches r) (timeout this))
         | Literal s \<Rightarrow>
             if exact
             then call (driver_wait (driver this) (TitleIs s) (timeout this))
             else call (driver_wait (driver this) (TitleContains s) (timeout this)))
        (\<lambda>e. error this sys (''Title '' @ matchTextNot title exact)))"

text \<open>\<open>expectStale\<close> (lines 447-453).\<close>

definition expectStale :: "'w facade \<Rightarrow> 'w node \<Rightarrow> element \<Rightarrow> ('w, unit) promise" where
  "expectStale this sys element =
     try_catch
       (call (driver_wait (driver this) (StalenessOf element) (timeout this)))
       (\<lambda>e. await (elementSelector this element) (\<lambda>selector.
            error this sys (''Element is not stale: '' @ [CHR 0x27] @ selector @ [CHR 0x27])))"

text \<open>\<open>expectPage\<close> (lines 461-473).\<close>

definition expectPage :: "'w facade \<Rightarrow> 'w node \<Rightarrow> search \<Rightarrow> bool option \<Rightarrow> ('w, unit) promise" where
  "expectPage this sys page exact_arg =
     (let exact = default_to False exact_arg in
      try_catch
        (case page of
           Pattern r \<Rightarrow> call (driver_wait (driver this) (UrlMatches r) (timeout this))
         | Literal s \<Rightarrow>
             if exact
             then call (driver_wait (driver this)
                          (UrlIs (toString (getProp (options this) ''baseUrl'') @ pagePath s))
                          (timeout this))
             else call (driver_wait (driver this) (UrlContains s) (timeout this)))
        (\<lambda>e. error this sys (''Page '' @ matchTextNot page exact)))"

text \<open>
  \<open>click\<close> (lines 324-332) and \<open>fillIn\<close> (lines 341-353). The handler calls
  \<open>this.error\<close> without \<open>await\<close>. The message of \<open>fillIn\<close> has no closing quote.
\<close>

definition click :: "'w facade \<Rightarrow> 'w node \<Rightarrow> string \<Rightarrow> ('w, unit) promise" where
  "click this sys selector =
     await (expectElement this sys selector None None) (\<lambda>element.
     try_catch
       (call (element_click (driver this) element))
       (\<lambda>e. no_await ((error :: 'w facade \<Rightarrow> 'w node \<Rightarrow> string \<Rightarrow> ('w, unit) promise) this sys
                (''Unable to click selector: '' @ [CHR 0x27] @ selector @ [CHR 0x27]))))"

definition fillIn ::
  "'w facade \<Rightarrow> 'w node \<Rightarrow> string \<Rightarrow> string \<Rightarrow> bool option \<Rightarrow> ('w, unit) promise" where
  "fillIn this sys selector val enter_arg =
     (let enter = default_to False enter_arg in
      await (expectElement this sys selector None None) (\<lambda>element.
      try_catch
        (if enter
         then call (element_sendKeys (driver this) element val True)
         else call (element_sendKeys (driver this) element val False))
        (\<lambda>e. no_await ((error :: 'w facade \<Rightarrow> 'w node \<Rightarrow> string \<Rightarrow> ('w, unit) promise) this sys
                 (''Unable to send keys to selector: '' @ [CHR 0x27] @ selector)))))"

text \<open>
  \<open>select\<close> (lines 361-382). The callbacks of \<open>Promise.all(options.map(...))\<close> read
  the options concurrently and each matching one assigns \<open>option\<close>, so the last
  assignment wins; the model runs the callbacks in the order of the list, one of the
  orders the runtime may produce. \<open>getText\<close> is read only when the value attribute
  differs. When no option matches, \<open>option\<close> is still \<open>undefined\<close> and
  \<open>option.click()\<close> throws a \<open>TypeError\<close>.
\<close>

fun scan_options ::
  "'w driver \<Rightarrow> string \<Rightarrow> element list \<Rightarrow> element option \<Rightarrow> ('w, element option) promise" where
  "scan_options d val [] option = resolve option"
| "scan_options d val (opt # opts) option =
     await (call (element_getAttribute d opt ''value'')) (\<lambda>a.
     if a = Some val then scan_options d val opts (Some opt)
     else await (call (element_getText d opt)) (\<lambda>t.
          if t = val then scan_options d val opts (Some opt)
          else scan_options d val opts option))"

definition select :: "'w facade \<Rightarrow> 'w node \<Rightarrow> string \<Rightarrow> string \<Rightarrow> ('w, unit) promise" where
  "select this sys selector val =
     await (expectElement this sys selector None None) (\<lambda>element.
     try_catch
       (await (call (element_click (driver this) element)) (\<lambda>_.
        await (call (element_findElements (driver this) element ''option'')) (\<lambda>opts.
        await (scan_options (driver this) val opts None) (\<lambda>option.
        case option of
          None \<Rightarrow> reject (TypeError ''Cannot read property click of undefined'')
        | Some opt \<Rightarrow>
            await (call (element_click (driver this) opt)) (\<lambda>_.
            call (driver_wait (driver this) (ElementIsSelected opt) (timeout this)))))))
       (\<lambda>e. no_await ((error :: 'w facade \<Rightarrow> 'w node \<Rightarrow> string \<Rightarrow> ('w, unit) promise) this sys
                (''Unable to select value/text: '' @ [CHR 0x27] @ val @ [CHR 0x27] @
                 '' from selector: '' @ [CHR 0x27] @ selector @ [CHR 0x27]))))"

text \<open>\<open>visit\<close> (lines 315-317), \<open>start\<close> (lines 301-304) and \<open>quit\<close> (lines 307-309).\<close>

definition visit :: "'w facade \<Rightarrow> string \<Rightarrow> ('w, unit) promise" where
  "visit this page =
     call (driver_get (driver this) (toString (getProp (options this) ''baseUrl'') @ pagePath page))"

definition start :: "'w facade \<Rightarrow> ('w, unit) promise" where
  "start this =
     await (call (driver_deleteAllCookies (driver this))) (\<lambda>_.
     case getProp (options this) ''homePagePath'' of
       Str page \<Rightarrow> visit this page
     | _ \<Rightarrow> reject (TypeError ''page.substr is not a function''))"

definition quit :: "'w facade \<Rightarrow> ('w, unit) promise" where
  "quit this = call (driver_quit (driver this))"

section \<open>The earlier snapshot\<close>

text \<open>
  \<open>error\<close> of the earlier snapshot (lines 176-193): the note and the listing go to
  \<open>console.log\<close> and the error carries the message it was given.
\<close>

definition error_r1 :: "'w facade \<Rightarrow> 'w node \<Rightarrow> string \<Rightarrow> ('w, 'a) promise" where
  "error_r1 this sys msg =
     await (call_value (Date_now sys)) (\<lambda>now.
     let dir = dirName this now msg in
     await (call (driver_logs_get (driver this))) (\<lambda>logs.
     await (call (execSync sys (''mkdir -p '' @ dir))) (\<lambda>_.
     await (call (fs_appendFileSync sys (dir @ ''/browser.log'')
                    (join [CHR 0x0A] (map logLine logs)))) (\<lambda>_.
     await (call (driver_takeScreenshot (driver this))) (\<lambda>shot.
     await (call_effect (fs_writeFile sys (dir @ ''/screenshot.png'') shot)) (\<lambda>_.
     await (call_effect (console_log sys (''Debug files created in: '' @ dir))) (\<lambda>_.
     await (call (execSync sys (''ls -l '' @ dir))) (\<lambda>listing.
     await (call_effect (console_log sys listing)) (\<lambda>_.
     reject (Error msg))))))))))"

text \<open>\<open>expectPage\<close> of the earlier snapshot (lines 145-157): \<open>exact = true\<close>.\<close>

definition expectPage_r1 :: "'w facade \<Rightarrow> 'w node \<Rightarrow> search \<Rightarrow> bool option \<Rightarrow> ('w, unit) promise" where
  "expectPage_r1 this sys page exact_arg =
     (let exact = default_to True exact_arg in
      try_catch
        (case page of
           Pattern r \<Rightarrow> call (driver_wait (driver this) (UrlMatches r) (timeout this))
         | Literal s \<Rightarrow>
             if exact
             then call (driver_wait (driver this)
                          (UrlIs (toString (getProp (options this) ''baseUrl'') @ pagePath s))
                          (timeout this))
             else call (driver_wait (driver this) (UrlContains s) (timeout this)))
        (\<lambda>e. error_r1 this sys (''Page '' @ matchTextNot page exact)))"

text \<open>
  The defaults table (lines 5-13) and the constructor (lines 16-31) of the earlier snapshot.
\<close>

definition defaults_r1 :: "string option \<Rightarrow> object" where
  "defaults_r1 BASE_URL =
     [''timeout'' \<mapsto> Num 1000,
      ''browser'' \<mapsto> Str ''chrome'',
      ''baseUrl'' \<mapsto> Str (case BASE_URL of
                           None \<Rightarrow> ''http://localhost:3000''
                         | Some u \<Rightarrow> if u = [] then ''http://localhost:3000'' else u),
      ''logLevel'' \<mapsto> Str ''SEVERE'',
      ''homePagePath'' \<mapsto> Str ''/'',
      ''debugDirectory'' \<mapsto> Str ''tmp/selenium-debug'',
      ''notificationsParent'' \<mapsto> Str ''.notifications'']"

definition constructor_r1 ::
  "(jsval \<Rightarrow> jsval \<Rightarrow> exn + 'w driver) \<Rightarrow> string option \<Rightarrow> object \<Rightarrow> exn + 'w facade" where
  "constructor_r1 Builder BASE_URL opts =
     (let this_options = assign (defaults_r1 BASE_URL) opts;
          this_timeout = getProp this_options ''timeout'';
          this_options =
            (if \<not> logging_Level (getProp this_options ''logLevel'')
             then this_options(''logLevel'' \<mapsto> getProp (defaults_r1 BASE_URL) ''logLevel'')
             else this_options)
      in case Builder (getProp this_options ''browser'') (getProp this_options ''logLevel'') of
           Inl e \<Rightarrow> Inl e
         | Inr d \<Rightarrow> Inr \<lparr>options = this_options, timeout = this_timeout, driver = d\<rparr>)"

text \<open>
  \<open>expectElement\<close> (lines 107-135, the text of the documented snapshot) and \<open>click\<close>
  (lines 46-54) of the earlier snapshot; the message of \<open>click\<close> has no closing quote.
\<close>

definition expectElement_r1 ::
  "'w facade \<Rightarrow> 'w node \<Rightarrow> string \<Rightarrow> search option \<Rightarrow> bool option \<Rightarrow> ('w, element) promise" where
  "expectElement_r1 this sys selector content exact_arg =
     (let exact = default_to False exact_arg in
      try_catch
        (await (call (driver_wait (driver this) (ElementLocated selector) (timeout this))) (\<lambda>_.
         await (call (driver_findElement (driver this) selector)) (\<lambda>element.
         await (call (driver_wait (driver this) (ElementIsVisible element) (timeout this))) (\<lambda>_.
         await (if truthy content
                then (case content of
                        Some (Pattern r) \<Rightarrow>
                          call (driver_wait (driver this) (ElementTextMatches element r) (timeout this))
                      | Some (Literal s) \<Rightarrow>
                          if exact
                          then call (driver_wait (driver this) (ElementTextIs element s) (timeout this))
                          else call (driver_wait (driver this) (ElementTextContains element s) (timeout this))
                      | None \<Rightarrow> resolve ())
                else resolve ()) (\<lambda>_.
         resolve element)))))
        (\<lambda>e.
         let msg = ''No element with selector: '' @ [CHR 0x27] @ selector @ [CHR 0x27];
             msg = (if truthy content
                    then msg @ '' and text that '' @
                         (case content of Some c \<Rightarrow> matchText c exact | None \<Rightarrow> [])
                    else msg)
         in error_r1 this sys msg))"

definition click_r1 :: "'w facade \<Rightarrow> 'w node \<Rightarrow> string \<Rightarrow> ('w, unit) promise" where
  "click_r1 this sys selector =
     await (expectElement_r1 this sys selector None None) (\<lambda>element.
     try_catch
       (call (element_click (driver this) element))
       (\<lambda>e. no_await ((error_r1 :: 'w facade \<Rightarrow> 'w node \<Rightarrow> string \<Rightarrow> ('w, unit) promise) this sys
                (''Unable to click selector: '' @ [CHR 0x27] @ selector))))"

text \<open>
  \<open>select\<close> of the earlier snapshot (lines 70-91) calls \<open>this.error(e)\<close> with the
  caught exception. \<open>error\<close> evaluates its template literal from left to right: it reads
  the clock, then \<open>msg.trim()\<close> throws a \<open>TypeError\<close>, an exception object having no
  such method.
\<close>

definition error_r1_of_exception :: "'w node \<Rightarrow> exn \<Rightarrow> ('w, 'a) promise" where
  "error_r1_of_exception sys e =
     await (call_value (Date_now sys)) (\<lambda>now.
     reject (TypeError ''msg.trim is not a function''))"

definition select_r1 :: "'w facade \<Rightarrow> 'w node \<Rightarrow> string \<Rightarrow> string \<Rightarrow> ('w, unit) promise" where
  "select_r1 this sys selector val =
     await (expectElement_r1 this sys selector None None) (\<lambda>element.
     try_catch
       (await (call (element_click (driver this) element)) (\<lambda>_.
        await (call (element_findElements (driver this) element ''option'')) (\<lambda>opts.
        await (scan_options (driver this) val opts None) (\<lambda>option.
        case option of
          None \<Rightarrow> reject (TypeError ''Cannot read property click of undefined'')
        | Some opt \<Rightarrow>
            await (call (element_click (driver this) opt)) (\<lambda>_.
            call (driver_wait (driver this) (ElementIsSelected opt) (timeout this)))))))
       (\<lambda>e. no_await ((error_r1_of_exception :: 'w node \<Rightarrow> exn \<Rightarrow> ('w, unit) promise) sys e)))"

section \<open>The properties as the specification words them\<close>

text \<open>
  The slug as the specification describes it: the message lowercased, every run of
  consecutive non-alphanumeric characters replaced by a single hyphen, no hyphen at either
  end. \<open>collapse_runs in_run s\<close> walks the string; \<open>in_run\<close> tells whether the
  previous character was part of a run.
\<close>

fun collapse_runs :: "bool \<Rightarrow> string \<Rightarrow> string" where
  "collapse_runs in_run [] = []"
| "collapse_runs in_run (c # cs) =
     (if isAlnum c then c # collapse_runs False cs
      else if in_run then collapse_runs True cs
      else CHR ''-'' # collapse_runs True cs)"

definition strip_hyphens :: "string \<Rightarrow> string" where
  "strip_hyphens s =
     rev (dropWhile (\<lambda>c. c = CHR ''-'') (rev (dropWhile (\<lambda>c. c = CHR ''-'') s)))"

definition slug_spec :: "string \<Rightarrow> string" where
  "slug_spec msg = strip_hyphens (collapse_runs False (toLowerCase msg))"

text \<open>The character class \<open>[a-z0-9]\<close>.\<close>

definition isLowerAlnum :: "char \<Rightarrow> bool" where
  "isLowerAlnum c = (let n = (of_char c :: nat) in
     (48 \<le> n \<and> n \<le> 57) \<or> (97 \<le> n \<and> n \<le> 122))"




text \<open>
  Modelled from the spec: what the title and URL conditions of the \<open>until\<close> module
  (outside the repository) test on a page, by the match policy of the specification: a
  pattern is tested against the value, an exact target is compared for equality, any other
  target has to occur in the value. \<open>test\<close> is the pattern matcher. Conditions on
  elements are left to the argument \<open>elements\<close>.
\<close>

fun until_holds ::
  "(regexp \<Rightarrow> string \<Rightarrow> bool) \<Rightarrow> (until \<Rightarrow> bool) \<Rightarrow> string \<Rightarrow> string \<Rightarrow> until \<Rightarrow> bool" where
  "until_holds test elements title url (TitleMatches r) = test r title"
| "until_holds test elements title url (TitleIs t) = (title = t)"
| "until_holds test elements title url (TitleContains t) = sublist t title"
| "until_holds test elements title url (UrlMatches r) = test r url"
| "until_holds test elements title url (UrlIs u) = (url = u)"
| "until_holds test elements title url (UrlContains u) = sublist u url"
| "until_holds test elements title url c = elements c"

section \<open>A scripted browser\<close>

text \<open>
  Concrete collaborators to run the operations on. The world is a count of the calls made
  so far. The page shows a drop-down list (element 1, found by every selector) with the
  options 2 (value \<open>a\<close>, text \<open>Option A\<close>) and 3 (value \<open>b\<close>, text
  \<open>Option B\<close>). \<open>reached\<close> tells which conditions come to hold within the timeout,
  \<open>clickable\<close> which elements accept a click.
\<close>

definition script_driver :: "(until \<Rightarrow> bool) \<Rightarrow> (element \<Rightarrow> bool) \<Rightarrow> nat driver" where
  "script_driver reached clickable =
     \<lparr>driver_wait = (\<lambda>c t w.
        (if reached c then Inr () else Inl (WebDriverError ''TimeoutError''), Suc w)),
      driver_findElement = (\<lambda>selector w. (Inr 1, Suc w)),
      driver_get = (\<lambda>url w. (Inr (), Suc w)),
      driver_quit = (\<lambda>w. (Inr (), Suc w)),
      driver_deleteAllCookies = (\<lambda>w. (Inr (), Suc w)),
      driver_logs_get = (\<lambda>w.
        (Inr [\<lparr>timestamp = 1570000000000, level_name = ''SEVERE'', message = ''boom''\<rparr>], Suc w)),
      driver_takeScreenshot = (\<lambda>w. (Inr ''iVBORw0KGgo='', Suc w)),
      element_click = (\<lambda>e w.
        (if clickable e then Inr () else Inl (WebDriverError ''ElementNotInteractableError''), Suc w)),
      element_sendKeys = (\<lambda>e keys enter w.
        (if clickable e then Inr () else Inl (WebDriverError ''ElementNotInteractableError''), Suc w)),
      element_findElements = (\<lambda>e tag w. (Inr (if e = 1 then [2, 3] else []), Suc w)),
      element_getAttribute = (\<lambda>e name w.
        (Inr (if e = 1 \<and> name = ''id'' then Some ''dropdown''
              else if e = 1 \<and> name = ''class'' then Some ''form-control wide''
              else if e = 2 \<and> name = ''value'' then Some ''a''
              else if e = 3 \<and> name = ''value'' then Some ''b''
              else None), Suc w)),
      element_getText = (\<lambda>e w.
        (Inr (if e = 2 then ''Option A'' else if e = 3 then ''Option B'' else []), Suc w)),
      element_getTagName = (\<lambda>e w. (Inr (if e = 1 then ''select'' else ''option''), Suc w))\<rparr>"

text \<open>The same browser showing one element with the given tag, id and class.\<close>

definition show_element :: "string \<Rightarrow> string option \<Rightarrow> string option \<Rightarrow> nat driver \<Rightarrow> nat driver" where
  "show_element t i c d =
     d\<lparr>element_getAttribute := (\<lambda>e name w.
         (Inr (if name = ''id'' then i else if name = ''class'' then c else None), Suc w)),
       element_getTagName := (\<lambda>e w. (Inr t, Suc w))\<rparr>"

definition script_node :: "nat node" where
  "script_node =
     \<lparr>Date_now = (\<lambda>w. (1570000000000, Suc w)),
      execSync = (\<lambda>cmd w. (Inr (if take 2 cmd = ''ls'' then ''total 8'' else []), Suc w)),
      fs_appendFileSync = (\<lambda>path data w. (Inr (), Suc w)),
      fs_writeFile = (\<lambda>path data w. Suc w),
      console_log = (\<lambda>line w. Suc w)\<rparr>"

definition script_facade :: "(until \<Rightarrow> bool) \<Rightarrow> (element \<Rightarrow> bool) \<Rightarrow> nat facade" where
  "script_facade reached clickable =
     \<lparr>options = defaults None, timeout = Num 1000, driver = script_driver reached clickable\<rparr>"

definition fresh :: "nat run" where
  "fresh = \<lparr>world = 0, unhandled = []\<rparr>"

definition element_facade :: "string \<Rightarrow> string option \<Rightarrow> string option \<Rightarrow> nat facade" where
  "element_facade t i c =
     \<lparr>options = defaults None, timeout = Num 1000,
      driver = show_element t i c (script_driver (\<lambda>c. True) (\<lambda>e. True))\<rparr>"

text \<open>A builder that always opens the scripted browser.\<close>

definition script_Builder :: "jsval \<Rightarrow> jsval \<Rightarrow> exn + nat driver" where
  "script_Builder browser level = Inr (script_driver (\<lambda>c. True) (\<lambda>e. True))"

section \<open>Evaluation and basic facts\<close>

lemmas run_defs = await_def try_catch_def no_await_def call_def call_value_def call_effect_def
  resolve_def reject_def default_to_def

lemmas script_defs = script_facade_def script_driver_def script_node_def fresh_def
  element_facade_def show_element_def script_Builder_def

lemma await_resolve_unit: "await (resolve ()) k = k ()"
  by (simp add: fun_eq_iff run_defs)

section \<open>Path normalisation\<close>


text \<open>
  C7. For every string \<open>p\<close>, \<open>_pagePath p\<close> is \<open>p\<close> itself when \<open>p\<close> starts with a
  slash and the slash followed by \<open>p\<close> otherwise; applying it twice is the same as applying
  it once; \<open>foo\<close> and \<open>/foo\<close> both give \<open>/foo\<close>.
\<close>

theorem pagePath_normalises:
  "pagePath p = (if prefix ''/'' p then p else ''/'' @ p)
   \<and> pagePath (pagePath p) = pagePath p
   \<and> pagePath ''foo'' = ''/foo''
   \<and> pagePath ''/foo'' = ''/foo''"
  by (cases p) (simp_all add: pagePath_def)

section \<open>The slug of a failure message\<close>

lemma replace_trailing_all:
  "list_all (\<lambda>x. x = CHR ''-'') s \<Longrightarrow> replace_trailing_hyphens s = []"
  by (cases s) simp_all

lemma replace_trailing_hyphens_eq:
  "replace_trailing_hyphens s = rev (dropWhile (\<lambda>c. c = CHR ''-'') (rev s))"
proof (induction s)
  case Nil
  show ?case by simp
next
  case (Cons c cs)
  show ?case
  proof (cases "list_all (\<lambda>x. x = CHR ''-'') (c # cs)")
    case True
    then have "dropWhile (\<lambda>c. c = CHR ''-'') (rev (c # cs)) = []"
      by (simp add: list_all_iff)
    with True show ?thesis by simp
  next
    case False
    show ?thesis
    proof (cases "list_all (\<lambda>x. x = CHR ''-'') cs")
      case True
      with False have c: "c \<noteq> CHR ''-''" by simp
      from True have "dropWhile (\<lambda>c. c = CHR ''-'') (rev cs) = []"
        by (simp add: list_all_iff)
      with True c False show ?thesis
        by (simp add: dropWhile_append replace_trailing_all list_all_iff)
    next
      case nall: False
      then have "dropWhile (\<lambda>c. c = CHR ''-'') (rev cs @ [c])
                   = dropWhile (\<lambda>c. c = CHR ''-'') (rev cs) @ [c]"
        by (simp add: dropWhile_append list_all_iff)
      with False Cons.IH show ?thesis by simp
    qed
  qed
qed

lemma lower_replace:
  "toLowerCase (replace_non_alnum s) = map (\<lambda>c. if isAlnum c then lowerChar c else CHR ''-'') s"
  by (simp add: toLowerCase_def replace_non_alnum_def lowerChar_def)

lemma alnum_lower: "isAlnum c \<Longrightarrow> isLowerAlnum (lowerChar c)"
  by (auto simp: isAlnum_def isLowerAlnum_def lowerChar_def Let_def)

lemma no_trailing_hyphen: "\<not> suffix ''-'' (rev (dropWhile (\<lambda>c. c = CHR ''-'') (rev s)))"
proof -
  define X where "X = dropWhile (\<lambda>c. c = CHR ''-'') (rev s)"
  have "X = [] \<or> hd X \<noteq> CHR ''-''"
    using hd_dropWhile [of "\<lambda>c. c = CHR ''-''" "rev s"] by (auto simp: X_def)
  then have "\<not> suffix ''-'' (rev X)"
    by (cases X) (auto simp: suffix_to_prefix)
  then show ?thesis by (simp add: X_def)
qed

lemma slug_eq:
  "slug msg = rev (dropWhile (\<lambda>c. c = CHR ''-'')
                (rev (map (\<lambda>c. if isAlnum c then lowerChar c else CHR ''-'') (trim msg))))"
  by (simp add: slug_def replace_trailing_hyphens_eq lower_replace)

lemma slug_chars: "list_all (\<lambda>c. c = CHR ''-'' \<or> isLowerAlnum c) (slug msg)"
proof -
  have "set (slug msg) \<subseteq> set (map (\<lambda>c. if isAlnum c then lowerChar c else CHR ''-'') (trim msg))"
    unfolding slug_eq using set_dropWhileD by fastforce
  then show ?thesis
    by (auto simp: list_all_iff alnum_lower)
qed

text \<open>
  C5, as the specification words it, fails on the code: two spaces between the words give
  two hyphens, where a run is to give one, and a message that starts with a punctuation
  mark gives a slug that starts with a hyphen.
\<close>

theorem slug_runs_counterexample:
  "slug ''Bad  Thing'' = ''bad--thing'' \<and> slug_spec ''Bad  Thing'' = ''bad-thing''
   \<and> slug ''Bad  Thing'' \<noteq> slug_spec ''Bad  Thing''
   \<and> slug ''!bad'' = ''-bad'' \<and> slug_spec ''!bad'' = ''bad''"
  by code_simp

text \<open>
  C5, amended. For every message, the slug in the directory name that \<open>error\<close> computes
  is the message trimmed of surrounding white space, with each non-alphanumeric character
  replaced by one hyphen, lowercased, and with the hyphens at its end removed: it consists of
  lowercase letters, digits and hyphens and does not end with a hyphen (hyphens at its
  start and runs of hyphens stay). The message \<open>Bad Thing!\<close> yields \<open>bad-thing\<close>.
\<close>

theorem slug_characterisation:
  "dirName this now msg =
     toString (getProp (options this) ''debugDirectory'') @ ''/'' @ toString (Num now) @ ''-'' @ slug msg
   \<and> slug msg = rev (dropWhile (\<lambda>c. c = CHR ''-'')
                   (rev (map (\<lambda>c. if isAlnum c then lowerChar c else CHR ''-'') (trim msg))))
   \<and> list_all (\<lambda>c. c = CHR ''-'' \<or> isLowerAlnum c) (slug msg)
   \<and> \<not> suffix ''-'' (slug msg)
   \<and> slug ''Bad Thing!'' = ''bad-thing''"
proof -
  have "slug ''Bad Thing!'' = ''bad-thing''" by code_simp
  moreover have "\<not> suffix ''-'' (slug msg)"
    unfolding slug_eq by (rule no_trailing_hyphen)
  ultimately show ?thesis
    using slug_chars [of msg] slug_eq [of msg] by (simp add: dirName_def)
qed

section \<open>The selector of an element\<close>











lemma elementSelector_examples:
  "fst (elementSelector (element_facade ''span'' (Some ''x'') (Some [])) 0 fresh) = Inr ''span#x''"
  "fst (elementSelector (element_facade ''p'' (Some []) (Some [])) 0 fresh) = Inr ''p''"
  "fst (elementSelector (element_facade ''p'' None None) 0 fresh) = Inr ''p''"
  "fst (elementSelector (element_facade ''li'' (Some ''x'') (Some ''a b '')) 0 fresh) = Inr ''li#x.a.b.''"
  by (simp_all add: elementSelector_def run_defs script_defs nonblank_def trim_def isWhiteSpace_def)

section \<open>Configuration\<close>

lemma assign_apply: "assign a b k = (case b k of None \<Rightarrow> a k | Some v \<Rightarrow> Some v)"
  by (simp add: assign_def map_add_def)

lemma defaults_values:
  "defaults BASE_URL ''timeout'' = Some (Num 1000)"
  "defaults BASE_URL ''browser'' = Some (Str ''chrome'')"
  "defaults BASE_URL ''logLevel'' = Some (Str ''SEVERE'')"
  "defaults BASE_URL ''homePagePath'' = Some (Str ''/'')"
  "defaults BASE_URL ''debugDirectory'' = Some (Str ''tmp/selenium-debug'')"
  "defaults BASE_URL ''baseUrl'' =
     Some (Str (if BASE_URL = None \<or> BASE_URL = Some [] then ''http://localhost:3000''
                else the BASE_URL))"
  by (simp_all add: defaults_def split: option.splits)

lemma defaults_dom:
  "dom (defaults BASE_URL) =
     {''timeout'', ''browser'', ''baseUrl'', ''logLevel'', ''homePagePath'', ''debugDirectory''}"
  by (auto simp: defaults_def split: if_splits)

lemma constructor_Inr:
  assumes "constructor Builder BASE_URL opts = Inr this"
  shows "options this =
           (if logging_Level (getProp (assign (defaults BASE_URL) opts) ''logLevel'')
            then assign (defaults BASE_URL) opts
            else (assign (defaults BASE_URL) opts)(''logLevel'' \<mapsto> Str ''SEVERE''))"
    and "timeout this = getProp (assign (defaults BASE_URL) opts) ''timeout''"
    and "\<exists>b l. Builder b l = Inr (driver this)"
proof -
  let ?m = "assign (defaults BASE_URL) opts"
  let ?o = "if \<not> logging_Level (getProp ?m ''logLevel'')
            then ?m(''logLevel'' \<mapsto> getProp (defaults BASE_URL) ''logLevel'') else ?m"
  from assms obtain d where b: "Builder (getProp ?o ''browser'') (getProp ?o ''logLevel'') = Inr d"
    and t: "this = \<lparr>options = ?o, timeout = getProp ?m ''timeout'', driver = d\<rparr>"
    unfolding constructor_def Let_def by (auto split: sum.splits)
  from t show "options this =
           (if logging_Level (getProp ?m ''logLevel'') then ?m else ?m(''logLevel'' \<mapsto> Str ''SEVERE''))"
    by (simp add: getProp_def defaults_values)
  from t show "timeout this = getProp ?m ''timeout''" by simp
  from b t show "\<exists>b l. Builder b l = Inr (driver this)" by auto
qed

lemma constructor_script:
  "\<exists>this. constructor script_Builder BASE_URL opts = Inr this"
  by (simp add: constructor_def Let_def script_Builder_def)

text \<open>
  C6. Whenever the constructor returns a facade for a partial configuration, every key the
  caller did not supply has the value of the defaults table in the resolved options, and the
  table holds timeout 1000, browser \<open>chrome\<close>, log level \<open>SEVERE\<close>, home page path
  \<open>/\<close>, debug directory \<open>tmp/selenium-debug\<close> and, as base URL, the environment
  variable if it is set and not empty and \<open>http://localhost:3000\<close> otherwise; a supplied
  log level that is not one of the recognised names is replaced by \<open>SEVERE\<close>.
\<close>

theorem constructor_defaults:
  assumes "constructor Builder BASE_URL opts = Inr this"
  shows "(k \<notin> dom opts \<longrightarrow> options this k = defaults BASE_URL k)
       \<and> (\<forall>v. opts ''logLevel'' = Some v \<and> \<not> logging_Level v
              \<longrightarrow> options this ''logLevel'' = Some (Str ''SEVERE''))
       \<and> (''timeout'' \<notin> dom opts \<longrightarrow> timeout this = Num 1000)
       \<and> map (defaults BASE_URL)
             [''timeout'', ''browser'', ''logLevel'', ''homePagePath'', ''debugDirectory'']
           = [Some (Num 1000), Some (Str ''chrome''), Some (Str ''SEVERE''), Some (Str ''/''),
              Some (Str ''tmp/selenium-debug'')]
       \<and> defaults BASE_URL ''baseUrl''
           = Some (Str (if BASE_URL = None \<or> BASE_URL = Some [] then ''http://localhost:3000''
                        else the BASE_URL))"
proof -
  note c = constructor_Inr [OF assms]
  have 1: "k \<notin> dom opts \<longrightarrow> options this k = defaults BASE_URL k"
  proof
    assume "k \<notin> dom opts"
    then have "opts k = None" by auto
    then show "options this k = defaults BASE_URL k"
      by (simp add: c(1) assign_apply defaults_values)
  qed
  have 2: "\<forall>v. opts ''logLevel'' = Some v \<and> \<not> logging_Level v
              \<longrightarrow> options this ''logLevel'' = Some (Str ''SEVERE'')"
    by (simp add: c(1) assign_apply getProp_def)
  have 3: "''timeout'' \<notin> dom opts \<longrightarrow> timeout this = Num 1000"
  proof
    assume "''timeout'' \<notin> dom opts"
    then have "opts ''timeout'' = None" by auto
    then show "timeout this = Num 1000"
      by (simp add: c(2) assign_apply getProp_def defaults_values)
  qed
  from 1 2 3 show ?thesis by (simp add: defaults_values)
qed

theorem constructor_defaults_witness:
  "\<exists>this. constructor script_Builder (Some ''http://example.com'')
             [''timeout'' \<mapsto> Num 5000, ''logLevel'' \<mapsto> Str ''VERBOSE''] = Inr this
      \<and> options this ''browser'' = Some (Str ''chrome'')
      \<and> options this ''baseUrl'' = Some (Str ''http://example.com'')
      \<and> options this ''homePagePath'' = Some (Str ''/'')
      \<and> options this ''debugDirectory'' = Some (Str ''tmp/selenium-debug'')
      \<and> options this ''logLevel'' = Some (Str ''SEVERE'')
      \<and> timeout this = Num 5000"
proof -
  let ?opts = "[''timeout'' \<mapsto> Num 5000, ''logLevel'' \<mapsto> Str ''VERBOSE'']"
  obtain this where t: "constructor script_Builder (Some ''http://example.com'') ?opts = Inr this"
    using constructor_script by blast
  have l: "\<not> logging_Level (Str ''VERBOSE'')"
    by (simp add: logging_Level_def)
  have "options this ''browser'' = Some (Str ''chrome'')"
    using constructor_defaults [OF t, of "''browser''"] by (simp add: defaults_values)
  moreover have "options this ''baseUrl'' = Some (Str ''http://example.com'')"
    using constructor_defaults [OF t, of "''baseUrl''"] by simp
  moreover have "options this ''homePagePath'' = Some (Str ''/'')"
    using constructor_defaults [OF t, of "''homePagePath''"] by (simp add: defaults_values)
  moreover have "options this ''debugDirectory'' = Some (Str ''tmp/selenium-debug'')"
    using constructor_defaults [OF t, of "''debugDirectory''"] by (simp add: defaults_values)
  moreover have "options this ''logLevel'' = Some (Str ''SEVERE'')"
    using constructor_defaults [OF t, of "''logLevel''"] l by simp
  moreover have "timeout this = Num 5000"
    using constructor_Inr(2) [OF t] by (simp add: assign_apply getProp_def)
  ultimately show ?thesis using t by blast
qed

text \<open>
  C9, as stated, fails on the code for the key \<open>logLevel\<close>: a log level explicitly set to
  \<open>undefined\<close> is not a recognised name, so the resolved configuration has the documented
  default \<open>SEVERE\<close> for it and not \<open>undefined\<close>.
\<close>

theorem logLevel_undefined_counterexample:
  "(case constructor script_Builder None [''logLevel'' \<mapsto> Undefined] of
      Inl e \<Rightarrow> False
    | Inr this \<Rightarrow> options this ''logLevel'' = Some (Str ''SEVERE'')
                 \<and> options this ''logLevel'' \<noteq> Some Undefined
                 \<and> options this ''logLevel'' = defaults None ''logLevel'')"
  by (simp add: constructor_def Let_def script_Builder_def assign_apply getProp_def defaults_values
        logging_Level_def)

text \<open>
  C9, amended. Default-filling applies only to keys absent from the options object: every
  key the caller supplies other than \<open>logLevel\<close> has the supplied value in the resolved
  configuration, also when that value is \<open>undefined\<close> (so \<open>{timeout: undefined}\<close>
  resolves to an undefined timeout, in the options and in the timeout the waits use). A
  supplied \<open>logLevel\<close> is kept when it is a recognised name and replaced by \<open>SEVERE\<close>
  otherwise, \<open>undefined\<close> included.
\<close>

theorem constructor_explicit_keys:
  assumes "constructor Builder BASE_URL opts = Inr this" and "opts k = Some v"
  shows "(k \<noteq> ''logLevel'' \<longrightarrow> options this k = Some v)
       \<and> (k = ''timeout'' \<longrightarrow> timeout this = v)
       \<and> (k = ''logLevel'' \<longrightarrow> options this k = Some (if logging_Level v then v else Str ''SEVERE''))"
proof -
  note c = constructor_Inr [OF assms(1)]
  show ?thesis
  proof (intro conjI impI)
    assume "k \<noteq> ''logLevel''"
    with assms(2) show "options this k = Some v"
      by (simp add: c(1) assign_apply)
  next
    assume "k = ''timeout''"
    with assms(2) show "timeout this = v"
      by (simp add: c(2) assign_apply getProp_def)
  next
    assume "k = ''logLevel''"
    with assms(2) show "options this k = Some (if logging_Level v then v else Str ''SEVERE'')"
      by (simp add: c(1) assign_apply getProp_def)
  qed
qed

theorem constructor_explicit_keys_witness:
  "\<exists>this. constructor script_Builder None [''timeout'' \<mapsto> Undefined] = Inr this
      \<and> options this ''timeout'' = Some Undefined
      \<and> options this ''timeout'' \<noteq> defaults None ''timeout''
      \<and> timeout this = Undefined"
proof -
  obtain this where t: "constructor script_Builder None [''timeout'' \<mapsto> Undefined] = Inr this"
    using constructor_script by blast
  have "[''timeout'' \<mapsto> Undefined] ''timeout'' = Some Undefined"
    by simp
  from constructor_explicit_keys [OF t this] t show ?thesis
    by (simp add: defaults_values)
qed

section \<open>Empty content in \<open>expectElement\<close>\<close>

text \<open>
  C10. For every selector and every value of the exact flag, \<open>expectElement\<close> with the
  empty string as content is the same operation as \<open>expectElement\<close> with no content: it
  waits for the element to be located and to be visible and for nothing else, and the
  message it hands to \<open>error\<close> on a timeout is the one that names the selector alone.
\<close>

theorem expectElement_empty_content:
  "expectElement this sys selector (Some (Literal [])) exact
     = expectElement this sys selector None exact'
   \<and> expectElement this sys selector (Some (Literal [])) exact
     = try_catch
         (await (call (driver_wait (driver this) (ElementLocated selector) (timeout this))) (\<lambda>_.
          await (call (driver_findElement (driver this) selector)) (\<lambda>element.
          await (call (driver_wait (driver this) (ElementIsVisible element) (timeout this))) (\<lambda>_.
          resolve element))))
         (\<lambda>e. error this sys (''No element with selector: '' @ [CHR 0x27] @ selector @ [CHR 0x27]))"
  by (simp add: expectElement_def await_resolve_unit)

section \<open>The failure path\<close>

lemma error_rejects: "isl (fst (error this sys msg s))"
  by (simp add: error_def run_defs Let_def split: prod.splits sum.splits)

lemma try_catch_error_isl:
  "isl (fst (try_catch m (\<lambda>e. error this sys (g e)) s)) = isl (fst (m s))"
proof (cases "m s")
  case (Pair r s')
  then show ?thesis
    using error_rejects [of this sys _ s']
    by (cases r) (simp_all add: try_catch_def)
qed

lemma call_fst: "fst (call f s) = fst (f (world s))"
  by (simp add: call_def split: prod.splits)

text \<open>
  C2. For every message, when the steps of \<open>error\<close> before the throw succeed (the console
  log is fetched, the directory made, the log written, the screenshot taken, the directory
  listed), \<open>error\<close> raises an error whose message is the given message followed by an
  empty line, the note \<open>Debug files created in:\<close> with the path of the artifact
  directory, and the listing of that directory. In every case \<open>error\<close> raises.
\<close>

theorem error_message:
  assumes "Date_now sys (world s) = (now, w1)"
    and "dir = dirName this now msg"
    and "driver_logs_get (driver this) w1 = (Inr logs, w2)"
    and "execSync sys (''mkdir -p '' @ dir) w2 = (Inr out, w3)"
    and "fs_appendFileSync sys (dir @ ''/browser.log'') (join [CHR 0x0A] (map logLine logs)) w3
           = (Inr (), w4)"
    and "driver_takeScreenshot (driver this) w4 = (Inr shot, w5)"
    and "execSync sys (''ls -l '' @ dir) (fs_writeFile sys (dir @ ''/screenshot.png'') shot w5)
           = (Inr listing, w6)"
  shows "(error this sys msg s :: (exn + 'a) \<times> 'w run) =
           (Inl (Error (msg @ [CHR 0x0A, CHR 0x0A] @ ''Debug files created in: '' @ dir
                          @ [CHR 0x0A] @ listing)),
            s\<lparr>world := w6\<rparr>)
         \<and> isl (fst (error this sys msg s' :: (exn + 'a) \<times> 'w run))"
  using assms error_rejects [of this sys msg s']
  by (simp add: error_def run_defs Let_def)

theorem error_message_witness:
  "(error (script_facade (\<lambda>c. True) (\<lambda>e. True)) script_node ''Bad Thing!'' fresh
      :: (exn + unit) \<times> nat run)
     = (Inl (Error (''Bad Thing!'' @ [CHR 0x0A, CHR 0x0A]
                      @ ''Debug files created in: tmp/selenium-debug/1570000000000-bad-thing''
                      @ [CHR 0x0A] @ ''total 8'')),
        \<lparr>world = 7, unhandled = []\<rparr>)"
proof -
  let ?F = "script_facade (\<lambda>c. True) (\<lambda>e. True)"
  let ?dir = "''tmp/selenium-debug/1570000000000-bad-thing''"
  have slug: "slug ''Bad Thing!'' = ''bad-thing''"
    by code_simp
  have 1: "Date_now script_node (world fresh) = (1570000000000, 1)"
    by (simp add: script_defs)
  have 2: "?dir = dirName ?F 1570000000000 ''Bad Thing!''"
    by (simp add: dirName_def slug script_facade_def getProp_def defaults_def digits.simps)
  have 3: "driver_logs_get (driver ?F) 1
             = (Inr [\<lparr>timestamp = 1570000000000, level_name = ''SEVERE'', message = ''boom''\<rparr>], 2)"
    by (simp add: script_defs)
  have 4: "execSync script_node (''mkdir -p '' @ ?dir) 2 = (Inr [], 3)"
    by (simp add: script_defs)
  have 5: "fs_appendFileSync script_node (?dir @ ''/browser.log'')
             (join [CHR 0x0A] (map logLine
                [\<lparr>timestamp = 1570000000000, level_name = ''SEVERE'', message = ''boom''\<rparr>])) 3
             = (Inr (), 4)"
    by (simp add: script_defs)
  have 6: "driver_takeScreenshot (driver ?F) 4 = (Inr ''iVBORw0KGgo='', 5)"
    by (simp add: script_defs)
  have 7: "execSync script_node (''ls -l '' @ ?dir)
             (fs_writeFile script_node (?dir @ ''/screenshot.png'') ''iVBORw0KGgo='' 5)
             = (Inr ''total 8'', 7)"
    by (simp add: script_defs)
  have "(error ?F script_node ''Bad Thing!'' fresh :: (exn + unit) \<times> nat run)
          = (Inl (Error (''Bad Thing!'' @ [CHR 0x0A, CHR 0x0A] @ ''Debug files created in: '' @ ?dir
                           @ [CHR 0x0A] @ ''total 8'')),
             fresh\<lparr>world := 7\<rparr>)"
    by (rule conjunct1 [OF error_message [OF 1 2 3 4 5 6 7]])
  then show ?thesis
    by (simp add: fresh_def)
qed

text \<open>
  In the earlier snapshot the note and the listing are printed and the error carries the
  message unchanged.
\<close>

lemma error_r1_message:
  assumes "Date_now sys (world s) = (now, w1)"
    and "dir = dirName this now msg"
    and "driver_logs_get (driver this) w1 = (Inr logs, w2)"
    and "execSync sys (''mkdir -p '' @ dir) w2 = (Inr out, w3)"
    and "fs_appendFileSync sys (dir @ ''/browser.log'') (join [CHR 0x0A] (map logLine logs)) w3
           = (Inr (), w4)"
    and "driver_takeScreenshot (driver this) w4 = (Inr shot, w5)"
    and "execSync sys (''ls -l '' @ dir)
           (console_log sys (''Debug files created in: '' @ dir)
              (fs_writeFile sys (dir @ ''/screenshot.png'') shot w5))
           = (Inr listing, w6)"
  shows "error_r1 this sys msg s = (Inl (Error msg), s\<lparr>world := console_log sys listing w6\<rparr>)"
  using assms
  by (simp add: error_r1_def run_defs Let_def)

section \<open>Waiting for a page\<close>

text \<open>
  C4. \<open>expectPage\<close> with the exact flag omitted is \<open>expectPage\<close> with the flag false.
  For a literal path and a true flag it fails exactly when the wait for the URL to be the
  base URL followed by the normalised path fails; for a literal path and a false flag,
  exactly when the wait for the URL to contain the path fails; for a pattern, exactly when
  the wait for the URL to match it fails. The URL of the base followed by
  \<open>/dashboard/extra\<close> does not satisfy the condition awaited for \<open>/dashboard\<close> with
  a true flag; the base followed by \<open>/dashboard\<close> does.
\<close>

theorem expectPage_policy:
  "expectPage this sys page None = expectPage this sys page (Some False)
   \<and> isl (fst (expectPage this sys (Literal p) (Some True) s))
     = isl (fst (driver_wait (driver this)
                   (UrlIs (toString (getProp (options this) ''baseUrl'') @ pagePath p))
                   (timeout this) (world s)))
   \<and> isl (fst (expectPage this sys (Literal p) (Some False) s))
     = isl (fst (driver_wait (driver this) (UrlContains p) (timeout this) (world s)))
   \<and> isl (fst (expectPage this sys (Pattern r) exact s))
     = isl (fst (driver_wait (driver this) (UrlMatches r) (timeout this) (world s)))
   \<and> \<not> until_holds test elements title (base @ ''/dashboard/extra'')
          (UrlIs (base @ pagePath ''/dashboard''))
   \<and> until_holds test elements title (base @ ''/dashboard'')
          (UrlIs (base @ pagePath ''/dashboard''))"
  by (simp add: expectPage_def default_to_def try_catch_error_isl call_fst pagePath_def)

text \<open>The earlier snapshot defaults the flag to true.\<close>

lemma expectPage_r1_default:
  "expectPage_r1 this sys page None = expectPage_r1 this sys page (Some True)"
  by (simp add: expectPage_r1_def default_to_def)

text \<open>
  The scenario on the scripted browser, showing the page \<open>/dashboard/extra\<close>: the exact
  expectation of \<open>/dashboard\<close> is rejected, the default one is fulfilled.
\<close>

lemma expectPage_dashboard_scenario:
  "isl (fst (expectPage
       (script_facade (until_holds (\<lambda>r v. False) (\<lambda>c. True) ''Dashboard''
                         ''http://localhost:3000/dashboard/extra'') (\<lambda>e. True))
       script_node (Literal ''/dashboard'') (Some True) fresh))"
  "fst (expectPage
       (script_facade (until_holds (\<lambda>r v. False) (\<lambda>c. True) ''Dashboard''
                         ''http://localhost:3000/dashboard/extra'') (\<lambda>e. True))
       script_node (Literal ''/dashboard'') None fresh) = Inr ()"
proof -
  have sub: "sublist ''/dashboard'' ''http://localhost:3000/dashboard/extra''"
    by code_simp
  show "isl (fst (expectPage
       (script_facade (until_holds (\<lambda>r v. False) (\<lambda>c. True) ''Dashboard''
                         ''http://localhost:3000/dashboard/extra'') (\<lambda>e. True))
       script_node (Literal ''/dashboard'') (Some True) fresh))"
    by (simp add: expectPage_def default_to_def try_catch_error_isl call_fst script_facade_def
          script_driver_def getProp_def defaults_def pagePath_def)
  show "fst (expectPage
       (script_facade (until_holds (\<lambda>r v. False) (\<lambda>c. True) ''Dashboard''
                         ''http://localhost:3000/dashboard/extra'') (\<lambda>e. True))
       script_node (Literal ''/dashboard'') None fresh) = Inr ()"
    using sub
    by (simp add: expectPage_def run_defs script_facade_def script_driver_def fresh_def)
qed

section \<open>Timeouts and failed actions\<close>

text \<open>
  The four expectations hand every exception of their waits to \<open>error\<close> with
  \<open>await\<close>, so a wait that times out rejects the promise of the operation.
\<close>

lemma expectTitle_rejects_iff:
  "isl (fst (expectTitle this sys (Literal t) (Some True) s))
     = isl (fst (driver_wait (driver this) (TitleIs t) (timeout this) (world s)))"
  "isl (fst (expectTitle this sys (Literal t) (Some False) s))
     = isl (fst (driver_wait (driver this) (TitleContains t) (timeout this) (world s)))"
  "isl (fst (expectTitle this sys (Literal t) None s))
     = isl (fst (driver_wait (driver this) (TitleContains t) (timeout this) (world s)))"
  "isl (fst (expectTitle this sys (Pattern r) exact s))
     = isl (fst (driver_wait (driver this) (TitleMatches r) (timeout this) (world s)))"
  by (simp_all add: expectTitle_def default_to_def try_catch_error_isl call_fst)

lemma expectElement_rejects_iff:
  "isl (fst (expectElement this sys selector content exact s))
     = isl (fst ((await (call (driver_wait (driver this) (ElementLocated selector) (timeout this))) (\<lambda>_.
         await (call (driver_findElement (driver this) selector)) (\<lambda>element.
         await (call (driver_wait (driver this) (ElementIsVisible element) (timeout this))) (\<lambda>_.
         await (if truthy content
                then (case content of
                        Some (Pattern r) \<Rightarrow>
                          call (driver_wait (driver this) (ElementTextMatches element r) (timeout this))
                      | Some (Literal c) \<Rightarrow>
                          if default_to False exact
                          then call (driver_wait (driver this) (ElementTextIs element c) (timeout this))
                          else call (driver_wait (driver this) (ElementTextContains element c) (timeout this))
                      | None \<Rightarrow> resolve ())
                else resolve ()) (\<lambda>_.
         resolve element))))) s))"
  by (simp add: expectElement_def Let_def try_catch_error_isl)

lemma expectElement_timeout_located:
  assumes "isl (fst (driver_wait (driver this) (ElementLocated selector) (timeout this) (world s)))"
  shows "isl (fst (expectElement this sys selector content exact s))"
  using assms
  by (simp add: expectElement_rejects_iff)
     (auto simp: await_def call_def split: prod.splits sum.splits)

lemma expectElement_timeout_visible:
  assumes "driver_wait (driver this) (ElementLocated selector) (timeout this) (world s) = (Inr (), w1)"
    and "driver_findElement (driver this) selector w1 = (Inr element, w2)"
    and "isl (fst (driver_wait (driver this) (ElementIsVisible element) (timeout this) w2))"
  shows "isl (fst (expectElement this sys selector content exact s))"
  using assms
  by (simp add: expectElement_rejects_iff)
     (auto simp: await_def call_def split: prod.splits sum.splits)

lemma expectElement_timeout_text:
  assumes "driver_wait (driver this) (ElementLocated selector) (timeout this) (world s) = (Inr (), w1)"
    and "driver_findElement (driver this) selector w1 = (Inr element, w2)"
    and "driver_wait (driver this) (ElementIsVisible element) (timeout this) w2 = (Inr (), w3)"
    and "c \<noteq> []"
    and "isl (fst (driver_wait (driver this)
                     (if exact = Some True then ElementTextIs element c else ElementTextContains element c)
                     (timeout this) w3))"
  shows "isl (fst (expectElement this sys selector (Some (Literal c)) exact s))"
  using assms
  by (simp add: expectElement_rejects_iff)
     (auto simp: await_def call_def default_to_def split: prod.splits sum.splits option.splits if_splits)

lemma expectStale_timeout:
  assumes "isl (fst (driver_wait (driver this) (StalenessOf element) (timeout this) (world s)))"
  shows "isl (fst (expectStale this sys element s))"
proof -
  obtain r w where w: "driver_wait (driver this) (StalenessOf element) (timeout this) (world s) = (r, w)"
    by (cases "driver_wait (driver this) (StalenessOf element) (timeout this) (world s)")
  with assms obtain e where r: "r = Inl e" by (cases r) auto
  have "isl (fst (await (elementSelector this element) (\<lambda>selector.
            error this sys (''Element is not stale: '' @ [CHR 0x27] @ selector @ [CHR 0x27])) s'))"
    for s' :: "'a run"
    using error_rejects [of this sys]
    by (auto simp: await_def split: prod.splits sum.splits)
  with w r show ?thesis
    by (simp add: expectStale_def try_catch_def call_def)
qed

text \<open>
  \<open>click\<close>, \<open>fillIn\<close> and \<open>select\<close> call \<open>error\<close> without \<open>await\<close>: once
  the element is resolved, their promise is fulfilled whatever happens in the action.
\<close>

lemma try_catch_no_await:
  "fst (try_catch m (\<lambda>e. no_await (h e)) s) = Inr ()"
  by (auto simp: try_catch_def no_await_def split: prod.splits sum.splits)

lemma click_resolves_after_element:
  "fst (expectElement this sys selector None None s) = Inr element \<Longrightarrow>
     fst (click this sys selector s) = Inr ()"
  by (cases "expectElement this sys selector None None s")
     (simp add: click_def await_def try_catch_no_await)

lemma fillIn_resolves_after_element:
  "fst (expectElement this sys selector None None s) = Inr element \<Longrightarrow>
     fst (fillIn this sys selector val enter s) = Inr ()"
  by (cases "expectElement this sys selector None None s")
     (simp add: fillIn_def Let_def await_def try_catch_no_await)

lemma select_resolves_after_element:
  "fst (expectElement this sys selector None None s) = Inr element \<Longrightarrow>
     fst (select this sys selector val s) = Inr ()"
  by (cases "expectElement this sys selector None None s")
     (simp add: select_def await_def try_catch_no_await)

lemmas eval_defs = expectElement_def run_defs script_defs error_def dirName_def logLine_def
  getProp_def defaults_def digits.simps

text \<open>
  C1 holds for \<open>expectElement\<close>, \<open>expectTitle\<close>, \<open>expectPage\<close> and \<open>expectStale\<close>
  (the lemmas above) and fails for \<open>select\<close>. On the scripted browser the option
  \<open>Option B\<close> is found and clicked and never reports itself selected: the wait times out,
  the promise of \<open>select\<close> is fulfilled all the same, and the error that \<open>error\<close>
  raises reaches no caller.
\<close>

theorem select_selected_timeout:
  "fst (driver_wait (driver (script_facade (\<lambda>c. c \<noteq> ElementIsSelected 3) (\<lambda>e. True)))
          (ElementIsSelected 3) (Num 1000) 10) = Inl (WebDriverError ''TimeoutError'')
   \<and> select (script_facade (\<lambda>c. c \<noteq> ElementIsSelected 3) (\<lambda>e. True)) script_node
        ''#dropdown'' ''Option B'' fresh
     = (Inr (),
        \<lparr>world = 18,
         unhandled = [Error (''Unable to select value/text: '' @ [CHR 0x27] @ ''Option B'' @ [CHR 0x27]
            @ '' from selector: '' @ [CHR 0x27] @ ''#dropdown'' @ [CHR 0x27] @ [CHR 0x0A, CHR 0x0A]
            @ ''Debug files created in: ''
            @ ''tmp/selenium-debug/1570000000000-unable-to-select-value-text---option-b--from-selector----dropdown''
            @ [CHR 0x0A] @ ''total 8'')]\<rparr>)"
proof -
  have "slug (''Unable to select value/text: '' @ [CHR 0x27] @ ''Option B'' @ [CHR 0x27]
            @ '' from selector: '' @ [CHR 0x27] @ ''#dropdown'' @ [CHR 0x27])
          = ''unable-to-select-value-text---option-b--from-selector----dropdown''"
    by code_simp
  then show ?thesis
    by (simp add: select_def eval_defs)
qed

text \<open>
  C3 fails on the code. On the scripted browser the button is located and visible and its
  click throws: the promise of \<open>click\<close> is fulfilled, and the error with the message of
  the action reaches no caller. The same happens in \<open>select\<close> when no option matches.
\<close>

theorem click_failure_not_raised:
  "click (script_facade (\<lambda>c. True) (\<lambda>e. False)) script_node ''#go'' fresh
     = (Inr (),
        \<lparr>world = 11,
         unhandled = [Error (''Unable to click selector: '' @ [CHR 0x27] @ ''#go'' @ [CHR 0x27]
            @ [CHR 0x0A, CHR 0x0A]
            @ ''Debug files created in: tmp/selenium-debug/1570000000000-unable-to-click-selector----go''
            @ [CHR 0x0A] @ ''total 8'')]\<rparr>)
   \<and> select (script_facade (\<lambda>c. True) (\<lambda>e. True)) script_node ''#dropdown'' ''Option C'' fresh
     = (Inr (),
        \<lparr>world = 16,
         unhandled = [Error (''Unable to select value/text: '' @ [CHR 0x27] @ ''Option C'' @ [CHR 0x27]
            @ '' from selector: '' @ [CHR 0x27] @ ''#dropdown'' @ [CHR 0x27] @ [CHR 0x0A, CHR 0x0A]
            @ ''Debug files created in: ''
            @ ''tmp/selenium-debug/1570000000000-unable-to-select-value-text---option-c--from-selector----dropdown''
            @ [CHR 0x0A] @ ''total 8'')]\<rparr>)"
proof -
  have "slug (''Unable to click selector: '' @ [CHR 0x27] @ ''#go'' @ [CHR 0x27])
          = ''unable-to-click-selector----go''"
    by code_simp
  then have 1: "click (script_facade (\<lambda>c. True) (\<lambda>e. False)) script_node ''#go'' fresh
     = (Inr (),
        \<lparr>world = 11,
         unhandled = [Error (''Unable to click selector: '' @ [CHR 0x27] @ ''#go'' @ [CHR 0x27]
            @ [CHR 0x0A, CHR 0x0A]
            @ ''Debug files created in: tmp/selenium-debug/1570000000000-unable-to-click-selector----go''
            @ [CHR 0x0A] @ ''total 8'')]\<rparr>)"
    by (simp add: click_def eval_defs)
  have "slug (''Unable to select value/text: '' @ [CHR 0x27] @ ''Option C'' @ [CHR 0x27]
            @ '' from selector: '' @ [CHR 0x27] @ ''#dropdown'' @ [CHR 0x27])
          = ''unable-to-select-value-text---option-c--from-selector----dropdown''"
    by code_simp
  then have 2: "select (script_facade (\<lambda>c. True) (\<lambda>e. True)) script_node ''#dropdown'' ''Option C'' fresh
     = (Inr (),
        \<lparr>world = 16,
         unhandled = [Error (''Unable to select value/text: '' @ [CHR 0x27] @ ''Option C'' @ [CHR 0x27]
            @ '' from selector: '' @ [CHR 0x27] @ ''#dropdown'' @ [CHR 0x27] @ [CHR 0x0A, CHR 0x0A]
            @ ''Debug files created in: ''
            @ ''tmp/selenium-debug/1570000000000-unable-to-select-value-text---option-c--from-selector----dropdown''
            @ [CHR 0x0A] @ ''total 8'')]\<rparr>)"
    by (simp add: select_def eval_defs)
  from 1 2 show ?thesis by simp
qed

text \<open>
  The same for \<open>fillIn\<close>, whose message has an opening quote and no closing one; and, for
  comparison, the runs in which the action succeeds and the expectation that times out.
\<close>

lemma fillIn_failure_not_raised:
  "fillIn (script_facade (\<lambda>c. True) (\<lambda>e. False)) script_node ''#name'' ''Ada'' None fresh
     = (Inr (),
        \<lparr>world = 11,
         unhandled = [Error (''Unable to send keys to selector: '' @ [CHR 0x27] @ ''#name''
            @ [CHR 0x0A, CHR 0x0A]
            @ ''Debug files created in: tmp/selenium-debug/1570000000000-unable-to-send-keys-to-selector----name''
            @ [CHR 0x0A] @ ''total 8'')]\<rparr>)"
proof -
  have "slug (''Unable to send keys to selector: '' @ [CHR 0x27] @ ''#name'')
          = ''unable-to-send-keys-to-selector----name''"
    by code_simp
  then show ?thesis
    by (simp add: fillIn_def eval_defs)
qed

lemma select_success:
  "select (script_facade (\<lambda>c. True) (\<lambda>e. True)) script_node ''#dropdown'' ''Option B'' fresh
     = (Inr (), \<lparr>world = 11, unhandled = []\<rparr>)"
  by (simp add: select_def eval_defs)

lemma expectElement_missing:
  "expectElement (script_facade (\<lambda>c. False) (\<lambda>e. True)) script_node ''.missing'' None None fresh
     = (Inl (Error (''No element with selector: '' @ [CHR 0x27] @ ''.missing'' @ [CHR 0x27]
            @ [CHR 0x0A, CHR 0x0A]
            @ ''Debug files created in: tmp/selenium-debug/1570000000000-no-element-with-selector----missing''
            @ [CHR 0x0A] @ ''total 8'')),
        \<lparr>world = 8, unhandled = []\<rparr>)"
proof -
  have "slug (''No element with selector: '' @ [CHR 0x27] @ ''.missing'' @ [CHR 0x27])
          = ''no-element-with-selector----missing''"
    by code_simp
  then show ?thesis
    by (simp add: eval_defs)
qed

section \<open>The earlier snapshot on the same properties\<close>

text \<open>
  The table of the earlier snapshot is the documented one with one more entry, so the
  resolved options of its constructor differ at that key only.
\<close>

lemma defaults_r1_eq:
  "defaults_r1 BASE_URL = (defaults BASE_URL)(''notificationsParent'' \<mapsto> Str ''.notifications'')"
  by (simp add: defaults_r1_def defaults_def)

lemma constructor_r1_Inr:
  assumes "constructor_r1 Builder BASE_URL opts = Inr this"
  shows "options this =
           (if logging_Level (getProp (assign (defaults_r1 BASE_URL) opts) ''logLevel'')
            then assign (defaults_r1 BASE_URL) opts
            else (assign (defaults_r1 BASE_URL) opts)(''logLevel'' \<mapsto> Str ''SEVERE''))"
    and "timeout this = getProp (assign (defaults_r1 BASE_URL) opts) ''timeout''"
proof -
  let ?m = "assign (defaults_r1 BASE_URL) opts"
  let ?o = "if \<not> logging_Level (getProp ?m ''logLevel'')
            then ?m(''logLevel'' \<mapsto> getProp (defaults_r1 BASE_URL) ''logLevel'') else ?m"
  from assms obtain d where
    t: "this = \<lparr>options = ?o, timeout = getProp ?m ''timeout'', driver = d\<rparr>"
    unfolding constructor_r1_def Let_def by (auto split: sum.splits)
  from t show "options this =
           (if logging_Level (getProp ?m ''logLevel'') then ?m else ?m(''logLevel'' \<mapsto> Str ''SEVERE''))"
    by (simp add: getProp_def defaults_r1_eq defaults_values)
  from t show "timeout this = getProp ?m ''timeout''" by simp
qed

lemma constructor_r1_defaults:
  assumes "constructor_r1 Builder BASE_URL opts = Inr this"
  shows "k \<notin> dom opts \<Longrightarrow> options this k = defaults_r1 BASE_URL k"
    and "k \<notin> dom opts \<Longrightarrow> k \<noteq> ''notificationsParent'' \<Longrightarrow> options this k = defaults BASE_URL k"
    and "opts ''logLevel'' = Some v \<Longrightarrow> \<not> logging_Level v \<Longrightarrow>
           options this ''logLevel'' = Some (Str ''SEVERE'')"
    and "opts k = Some v \<Longrightarrow> k \<noteq> ''logLevel'' \<Longrightarrow> options this k = Some v"
proof -
  note c = constructor_r1_Inr [OF assms]
  show 1: "options this k = defaults_r1 BASE_URL k" if "k \<notin> dom opts"
  proof -
    from that have "opts k = None" by auto
    then show ?thesis
      by (cases "k = ''notificationsParent''")
         (auto simp: c(1) assign_apply defaults_r1_eq defaults_values)
  qed
  show "options this k = defaults BASE_URL k" if "k \<notin> dom opts" "k \<noteq> ''notificationsParent''"
    using 1 that by (simp add: defaults_r1_eq)
  show "options this ''logLevel'' = Some (Str ''SEVERE'')"
    if "opts ''logLevel'' = Some v" "\<not> logging_Level v"
    using that by (simp add: c(1) assign_apply getProp_def)
  show "options this k = Some v" if "opts k = Some v" "k \<noteq> ''logLevel''"
    using that by (simp add: c(1) assign_apply)
qed

text \<open>
  \<open>click\<close> and \<open>select\<close> of the earlier snapshot drop the promise of \<open>error\<close> in
  the same way.
\<close>

lemma click_r1_resolves_after_element:
  "fst (expectElement_r1 this sys selector None None s) = Inr element \<Longrightarrow>
     fst (click_r1 this sys selector s) = Inr ()"
  by (cases "expectElement_r1 this sys selector None None s")
     (simp add: click_r1_def await_def try_catch_no_await)

lemma select_r1_resolves_after_element:
  "fst (expectElement_r1 this sys selector None None s) = Inr element \<Longrightarrow>
     fst (select_r1 this sys selector val s) = Inr ()"
  by (cases "expectElement_r1 this sys selector None None s")
     (simp add: select_r1_def await_def try_catch_no_await)

lemma select_r1_selected_timeout:
  "select_r1 (script_facade (\<lambda>c. c \<noteq> ElementIsSelected 3) (\<lambda>e. True)) script_node
        ''#dropdown'' ''Option B'' fresh
     = (Inr (), \<lparr>world = 12, unhandled = [TypeError ''msg.trim is not a function'']\<rparr>)"
  by (simp add: select_r1_def expectElement_r1_def error_r1_of_exception_def run_defs script_defs)

end
